theory Spec2Isabelle
  imports Complex_Main "HOL-Library.Word"
begin

section \<open>JavaScript values used by the two source files\<close>

text \<open>
  A JavaScript string is a sequence of 16-bit code units. Literals of the source are
  written \<open>js ''...''\<close>.
\<close>

type_synonym jstring = "16 word list"

definition js :: "string \<Rightarrow> jstring" where
  "js s = map (\<lambda>c. of_nat (of_char c)) s"

text \<open>
  The code units that \<^verbatim>\<open>String.prototype.trim\<close> strips: ECMAScript's WhiteSpace
  (TAB, VT, FF, ZWNBSP and the space separators) and LineTerminator (LF, CR, LS, PS).
\<close>

definition isWhiteSpace :: "16 word \<Rightarrow> bool" where
  "isWhiteSpace c \<longleftrightarrow>
     c \<in> {0x09, 0x0A, 0x0B, 0x0C, 0x0D, 0x20, 0xA0, 0x1680,
          0x2028, 0x2029, 0x202F, 0x205F, 0x3000, 0xFEFF}
     \<or> (0x2000 \<le> c \<and> c \<le> 0x200A)"

definition trim :: "jstring \<Rightarrow> jstring" where
  "trim s = dropWhile isWhiteSpace (rev (dropWhile isWhiteSpace (rev s)))"

text \<open>\<^verbatim>\<open>s.split('\n')\<close>: never empty, \<^verbatim>\<open>''.split('\n')\<close> is \<^verbatim>\<open>['']\<close>.\<close>

fun split_newline :: "jstring \<Rightarrow> jstring list" where
  "split_newline [] = [[]]"
| "split_newline (c # cs) =
     (if c = 0x0A then [] # split_newline cs
      else (case split_newline cs of [] \<Rightarrow> [[c]] | l # ls \<Rightarrow> (c # l) # ls))"

text \<open>
  \<^verbatim>\<open>Buffer.prototype.toString()\<close>: the bytes read as UTF-8 into UTF-16 code units.
  A byte that cannot start or continue a character, and a character cut short, become
  U+FFFD, and decoding goes on at the byte that did not fit. The handlers take the
  decoder as a parameter; this one decodes the concrete runs.
\<close>

definition continuation :: "8 word \<Rightarrow> bool" where
  "continuation b \<longleftrightarrow> 0x80 \<le> b \<and> b \<le> 0xBF"

fun utf8_decode :: "8 word list \<Rightarrow> jstring" where
  "utf8_decode [] = []"
| "utf8_decode (b # bs) =
     (if b < 0x80 then of_nat (unat b) # utf8_decode bs
      else if 0xC2 \<le> b \<and> b \<le> 0xDF then
        (case bs of
           [] \<Rightarrow> [0xFFFD]
         | c1 # r1 \<Rightarrow>
             if continuation c1
             then of_nat ((unat b - 192) * 64 + (unat c1 - 128)) # utf8_decode r1
             else 0xFFFD # utf8_decode bs)
      else if 0xE0 \<le> b \<and> b \<le> 0xEF then
        (case bs of
           [] \<Rightarrow> [0xFFFD]
         | c1 # r1 \<Rightarrow>
             if (if b = 0xE0 then 0xA0 else 0x80) \<le> c1 \<and> c1 \<le> (if b = 0xED then 0x9F else 0xBF)
             then (case r1 of
                     [] \<Rightarrow> [0xFFFD]
                   | c2 # r2 \<Rightarrow>
                       if continuation c2
                       then of_nat ((unat b - 224) * 4096 + (unat c1 - 128) * 64 + (unat c2 - 128))
                              # utf8_decode r2
                       else 0xFFFD # utf8_decode r1)
             else 0xFFFD # utf8_decode bs)
      else if 0xF0 \<le> b \<and> b \<le> 0xF4 then
        (case bs of
           [] \<Rightarrow> [0xFFFD]
         | c1 # r1 \<Rightarrow>
             if (if b = 0xF0 then 0x90 else 0x80) \<le> c1 \<and> c1 \<le> (if b = 0xF4 then 0x8F else 0xBF)
             then (case r1 of
                     [] \<Rightarrow> [0xFFFD]
                   | c2 # r2 \<Rightarrow>
                       if continuation c2
                       then (case r2 of
                               [] \<Rightarrow> [0xFFFD]
                             | c3 # r3 \<Rightarrow>
                                 if continuation c3
                                 then
                                   (let n = (unat b - 240) * 262144 + (unat c1 - 128) * 4096
                                            + (unat c2 - 128) * 64 + (unat c3 - 128) - 65536
                                    in of_nat (55296 + n div 1024) # of_nat (56320 + n mod 1024)
                                         # utf8_decode r3)
                                 else 0xFFFD # utf8_decode r2)
                       else 0xFFFD # utf8_decode r1)
             else 0xFFFD # utf8_decode bs)
      else 0xFFFD # utf8_decode bs)"

declare utf8_decode.simps(2) [simp del]

text \<open>
  The numbers \<^verbatim>\<open>JSON.parse\<close> produces: a finite value, or an infinity for a
  literal beyond the range of a double, such as \<^verbatim>\<open>1e999\<close>.
\<close>

datatype number = Finite real | PosInfinity | NegInfinity

text \<open>
  The values \<^verbatim>\<open>JSON.parse\<close> produces. A JavaScript value that may be
  \<^verbatim>\<open>undefined\<close> is a \<open>json option\<close>, \<open>None\<close> standing for \<^verbatim>\<open>undefined\<close>.
\<close>

datatype json =
    JNull
  | JBool bool
  | JNumber number
  | JString jstring
  | JArray "json list"
  | JObject "(jstring \<times> json) list"

text \<open>
  Reading a property of a non-null value, for the names the sources read
  (\<^verbatim>\<open>text\<close>, \<^verbatim>\<open>voice\<close>, \<^verbatim>\<open>success\<close>, \<^verbatim>\<open>audio\<close>): own properties of an object;
  the prototypes of strings, numbers, booleans and arrays define none of them.
\<close>

fun get_property :: "json \<Rightarrow> jstring \<Rightarrow> json option" where
  "get_property (JObject kvs) k = map_of kvs k"
| "get_property _ k = None"

fun truthy :: "json option \<Rightarrow> bool" where
  "truthy None = False"
| "truthy (Some JNull) = False"
| "truthy (Some (JBool b)) = b"
| "truthy (Some (JNumber x)) = (x \<noteq> Finite 0)"
| "truthy (Some (JString s)) = (s \<noteq> [])"
| "truthy (Some (JArray _)) = True"
| "truthy (Some (JObject _)) = True"

fun typeof :: "json option \<Rightarrow> string" where
  "typeof None = ''undefined''"
| "typeof (Some JNull) = ''object''"
| "typeof (Some (JBool _)) = ''boolean''"
| "typeof (Some (JNumber _)) = ''number''"
| "typeof (Some (JString _)) = ''string''"
| "typeof (Some (JArray _)) = ''object''"
| "typeof (Some (JObject _)) = ''object''"

section \<open>The route \<^verbatim>\<open>POST /api/tts\<close>\<close>

text \<open>
  A response: its status and the JSON value its body text denotes, which is what a
  client reads from it.
\<close>

record response =
  status :: nat
  body :: json

text \<open>
  The value denoted by the text \<^verbatim>\<open>JSON.stringify(v)\<close>. JSON has no infinities:
  \<^verbatim>\<open>JSON.stringify\<close> writes them as \<^verbatim>\<open>null\<close>. Everything else \<^verbatim>\<open>JSON.parse\<close>
  produces is written as it is.
\<close>

fun serialised :: "json \<Rightarrow> json" where
  "serialised (JNumber (Finite x)) = JNumber (Finite x)"
| "serialised (JNumber _) = JNull"
| "serialised (JArray vs) = JArray (map serialised vs)"
| "serialised (JObject kvs) = JObject (map (\<lambda>(k, v). (k, serialised v)) kvs)"
| "serialised v = v"

text \<open>\<^verbatim>\<open>NextResponse.json(v, { status: st })\<close>: the body is \<^verbatim>\<open>JSON.stringify(v)\<close>.\<close>

definition NextResponse_json :: "json \<Rightarrow> nat \<Rightarrow> response" where
  "NextResponse_json v st = \<lparr>status = st, body = serialised v\<rparr>"

text \<open>\<^verbatim>\<open>NextResponse.json({ error: msg }, { status: st })\<close>\<close>

definition error_response :: "string \<Rightarrow> nat \<Rightarrow> response" where
  "error_response msg st = NextResponse_json (JObject [(js ''error'', JString (js msg))]) st"

text \<open>
  The two arguments of the script that depend on the request. The executable, the script
  path, the working directory and the environment are fixed by \<^verbatim>\<open>process.cwd()\<close>.
\<close>

record spawn_call =
  text_arg :: "json option"
  voicePath_arg :: json

text \<open>
  What the child process does is the environment's: the events it emits, in order. A
  \<^verbatim>\<open>data\<close> event carries a chunk of bytes (a \<^verbatim>\<open>Buffer\<close>), cut wherever the pipe
  delivers it. \<open>Close code\<close> carries the exit code, \<open>None\<close> for \<^verbatim>\<open>null\<close> (killed by a
  signal).
\<close>

datatype event =
    StdoutData "8 word list"
  | StderrData "8 word list"
  | Close "int option"
  | Error

datatype spawn_result = SpawnThrows | Child "event list"

record child_state =
  stdout :: jstring
  stderr :: jstring
  resolved :: "response option"

text \<open>\<^verbatim>\<open>resolve(r)\<close>: only the first call settles the promise.\<close>

definition resolve :: "response \<Rightarrow> child_state \<Rightarrow> child_state" where
  "resolve r s = (case resolved s of None \<Rightarrow> s\<lparr>resolved := Some r\<rparr> | Some _ \<Rightarrow> s)"

text \<open>
  The \<^verbatim>\<open>try\<close> block of the \<^verbatim>\<open>close\<close> handler. \<open>JSON_parse\<close> is the platform's
  \<^verbatim>\<open>JSON.parse\<close>, \<open>None\<close> when it throws. Indexing an empty array gives
  \<^verbatim>\<open>undefined\<close>, whose \<^verbatim>\<open>trim\<close> throws into the same \<^verbatim>\<open>catch\<close>.
  In the handlers below \<open>decode\<close> is the platform's \<^verbatim>\<open>data.toString()\<close>, the text
  of one chunk read as UTF-8.
\<close>

definition parse_stdout :: "(jstring \<Rightarrow> json option) \<Rightarrow> jstring \<Rightarrow> response" where
  "parse_stdout JSON_parse out =
     (let lines = split_newline (trim out) in
      if lines = [] then error_response ''Invalid response from TTS service'' 500
      else
        let lastLine = trim (lines ! (length lines - 1)) in
        (case JSON_parse lastLine of
           None \<Rightarrow> error_response ''Invalid response from TTS service'' 500
         | Some result \<Rightarrow> NextResponse_json result 200))"

definition on_close :: "(jstring \<Rightarrow> json option) \<Rightarrow> int option \<Rightarrow> child_state \<Rightarrow> child_state" where
  "on_close JSON_parse code s =
     (if code \<noteq> Some 0 then resolve (error_response ''TTS generation failed'' 500) s
      else resolve (parse_stdout JSON_parse (stdout s)) s)"

fun handle_event ::
  "(jstring \<Rightarrow> json option) \<Rightarrow> (8 word list \<Rightarrow> jstring) \<Rightarrow> child_state \<Rightarrow> event \<Rightarrow> child_state" where
  "handle_event JSON_parse decode s (StdoutData d) = s\<lparr>stdout := stdout s @ decode d\<rparr>"
| "handle_event JSON_parse decode s (StderrData d) = s\<lparr>stderr := stderr s @ decode d\<rparr>"
| "handle_event JSON_parse decode s (Close code) = on_close JSON_parse code s"
| "handle_event JSON_parse decode s Error =
     resolve (error_response ''Failed to start TTS service'' 500) s"

definition run_child ::
  "(jstring \<Rightarrow> json option) \<Rightarrow> (8 word list \<Rightarrow> jstring) \<Rightarrow> event list \<Rightarrow> child_state" where
  "run_child JSON_parse decode evs =
     foldl (handle_event JSON_parse decode) \<lparr>stdout = [], stderr = [], resolved = None\<rparr> evs"

text \<open>
  What the handler's promise does: it resolves to a response, rejects (an exception
  thrown inside the promise executor is out of reach of the handler's \<^verbatim>\<open>catch\<close>), or
  stays pending (the child never closes).
\<close>

datatype outcome = Resolved response | Rejected | Pending

record post_result =
  outcome :: outcome
  spawn_calls :: "spawn_call list"

text \<open>\<^verbatim>\<open>voice === 'default' ? '' : voice || ''\<close>\<close>

definition voicePath :: "json option \<Rightarrow> json" where
  "voicePath voice =
     (if voice = Some (JString (js ''default'')) then JString []
      else (case voice of
              None \<Rightarrow> JString []
            | Some v \<Rightarrow> if truthy voice then v else JString []))"

text \<open>
  The handler. \<open>request_json\<close> is the result of \<^verbatim>\<open>await request.json()\<close>, \<open>None\<close> when
  it throws. Destructuring \<^verbatim>\<open>null\<close> throws a TypeError, caught by the same \<^verbatim>\<open>catch\<close>.
\<close>

definition POST ::
  "(jstring \<Rightarrow> json option) \<Rightarrow> (8 word list \<Rightarrow> jstring) \<Rightarrow> json option \<Rightarrow>
     (spawn_call \<Rightarrow> spawn_result) \<Rightarrow> post_result" where
  "POST JSON_parse decode request_json spawn =
     (case request_json of
        None \<Rightarrow> \<lparr>outcome = Resolved (error_response ''Internal server error'' 500), spawn_calls = []\<rparr>
      | Some JNull \<Rightarrow>
          \<lparr>outcome = Resolved (error_response ''Internal server error'' 500), spawn_calls = []\<rparr>
      | Some b \<Rightarrow>
          let text = get_property b (js ''text'');
              voice = get_property b (js ''voice'')
          in
          if \<not> truthy text \<or> typeof text \<noteq> ''string''
          then \<lparr>outcome = Resolved (error_response ''Text is required'' 400), spawn_calls = []\<rparr>
          else
            let call = \<lparr>text_arg = text, voicePath_arg = voicePath voice\<rparr> in
            (case spawn call of
               SpawnThrows \<Rightarrow> \<lparr>outcome = Rejected, spawn_calls = [call]\<rparr>
             | Child evs \<Rightarrow>
                 \<lparr>outcome = (case resolved (run_child JSON_parse decode evs) of
                               None \<Rightarrow> Pending
                             | Some r \<Rightarrow> Resolved r),
                  spawn_calls = [call]\<rparr>))"

text \<open>
  The spec's words, the final non-empty line of standard output: of the lines of the
  text (split at line feeds), the last one that holds a character other than
  whitespace, as it stands; \<open>None\<close> when there is no such line.
\<close>

definition spec_final_nonempty_line :: "jstring \<Rightarrow> jstring option" where
  "spec_final_nonempty_line out =
     find (\<lambda>l. \<not> list_all isWhiteSpace l) (rev (split_newline out))"

text \<open>A run of the child that exits: output on the two streams, then \<open>Close\<close>.\<close>

fun is_data :: "event \<Rightarrow> bool" where
  "is_data (StdoutData _) = True"
| "is_data (StderrData _) = True"
| "is_data _ = False"

fun stdout_chunks :: "event list \<Rightarrow> 8 word list list" where
  "stdout_chunks [] = []"
| "stdout_chunks (StdoutData d # evs) = d # stdout_chunks evs"
| "stdout_chunks (_ # evs) = stdout_chunks evs"

text \<open>
  The standard output of a run as the handler has read it when the child closes: the
  chunks, each decoded on its own, one after the other.
\<close>

definition stdout_of :: "(8 word list \<Rightarrow> jstring) \<Rightarrow> event list \<Rightarrow> jstring" where
  "stdout_of decode evs = concat (map decode (stdout_chunks evs))"

text \<open>
  The standard output of a run as the child wrote it: the text of all its bytes. The two
  differ when a chunk ends inside a character of more than one byte.
\<close>

definition stdout_text :: "(8 word list \<Rightarrow> jstring) \<Rightarrow> event list \<Rightarrow> jstring" where
  "stdout_text decode evs = decode (concat (stdout_chunks evs))"


section \<open>The chat component\<close>

datatype role = User | Assistant

record message =
  id_msg :: jstring
  role :: role
  content :: jstring

text \<open>
  An \<^verbatim>\<open>HTMLAudioElement\<close>: the bytes behind its object URL, and the two attributes
  the component writes.
\<close>

record audio =
  src :: "8 word list"
  paused :: bool
  currentTime :: real

text \<open>
  The component's state (\<^verbatim>\<open>useState\<close>) and its registry of audio elements
  (\<^verbatim>\<open>useRef\<close>). Audio elements are objects: \<open>audios\<close> is the store that holds them, an
  element's address is its index, and \<open>audioRefs\<close> maps a message id to an address.
  The lists of models and voices are left out; the functions below do not read them.
\<close>

record chat =
  messages :: "message list"
  input :: jstring
  loading :: bool
  selectedModel :: jstring
  selectedVoice :: jstring
  playingAudio :: "jstring option"
  generatingAudio :: "jstring option"
  autoPlay :: bool
  responseLength :: "int list"
  audioRefs :: "jstring \<rightharpoonup> nat"
  audios :: "audio list"

text \<open>
  The functions of the component are closures of one render: they read the state
  variables of that render (\<open>r\<close> below) and write the current state (\<open>s\<close>) through the
  setters and the registry. An \<^verbatim>\<open>async\<close> function is split at its \<^verbatim>\<open>await\<close>s: the
  part after an \<^verbatim>\<open>await\<close> still reads \<open>r\<close>, while \<open>s\<close> is whatever the state has become.
\<close>

definition stopTTS :: "jstring \<Rightarrow> chat \<Rightarrow> chat" where
  "stopTTS messageId s =
     (case audioRefs s messageId of
        None \<Rightarrow> s
      | Some a \<Rightarrow>
          s\<lparr>audios := (audios s)[a := (audios s ! a)\<lparr>paused := True, currentTime := 0\<rparr>],
            playingAudio := None\<rparr>)"

text \<open>What a pending call of \<^verbatim>\<open>generateTTS\<close> holds across its \<^verbatim>\<open>await\<close>s.\<close>

record tts_task =
  messageId :: jstring
  tts_body :: json
  seen_playingAudio :: "jstring option"

text \<open>\<^verbatim>\<open>generateTTS\<close> up to \<^verbatim>\<open>await fetch('/api/tts', ...)\<close>.\<close>

definition generateTTS_call :: "chat \<Rightarrow> jstring \<Rightarrow> jstring \<Rightarrow> chat \<Rightarrow> chat \<times> tts_task option" where
  "generateTTS_call r text mid s =
     (if trim text = [] then (s, None)
      else
        (s\<lparr>generatingAudio := Some mid\<rparr>,
         Some \<lparr>messageId = mid,
               tts_body = JObject ((js ''text'', JString text) #
                 (if selectedVoice r = [] then [] else [(js ''voice'', JString (selectedVoice r))])),
               seen_playingAudio = playingAudio r\<rparr>))"

text \<open>
  From the response of the route to the call of \<^verbatim>\<open>audio.play()\<close>. \<open>fetched\<close> is the
  parsed body, \<open>None\<close> when \<^verbatim>\<open>fetch\<close> or \<^verbatim>\<open>response.json()\<close> rejects; \<open>atob\<close> is the
  platform's decoder applied to \<^verbatim>\<open>data.audio\<close>, \<open>None\<close> when it throws; \<open>allowed\<close> says
  whether the browser lets the element play, in which case \<^verbatim>\<open>play()\<close> clears
  \<^verbatim>\<open>paused\<close> at once. The result names the element whose \<^verbatim>\<open>play()\<close> promise is
  awaited; without one the function has run its \<^verbatim>\<open>finally\<close> and is done.
\<close>

definition generateTTS_fetched ::
  "(json option \<Rightarrow> jstring option) \<Rightarrow> tts_task \<Rightarrow> json option \<Rightarrow> bool \<Rightarrow> chat \<Rightarrow> chat \<times> nat option" where
  "generateTTS_fetched atob task fetched allowed s =
     (case fetched of
        None \<Rightarrow> (s\<lparr>generatingAudio := None\<rparr>, None)
      | Some JNull \<Rightarrow> (s\<lparr>generatingAudio := None\<rparr>, None)
      | Some data \<Rightarrow>
          if truthy (get_property data (js ''success'')) \<and> truthy (get_property data (js ''audio''))
          then
            (case atob (get_property data (js ''audio'')) of
               None \<Rightarrow> (s\<lparr>generatingAudio := None\<rparr>, None)
             | Some audioData \<Rightarrow>
                 let a = length (audios s);
                     s1 = s\<lparr>audios := audios s @
                                [\<lparr>src = map ucast audioData, paused = True, currentTime = 0\<rparr>],
                            audioRefs := (audioRefs s)(messageId task \<mapsto> a)\<rparr>;
                     s2 = (case seen_playingAudio task of
                             None \<Rightarrow> s1
                           | Some p \<Rightarrow> if p \<noteq> [] \<and> p \<noteq> messageId task then stopTTS p s1 else s1);
                     s3 = s2\<lparr>playingAudio := Some (messageId task)\<rparr>;
                     s4 = (if allowed
                           then s3\<lparr>audios := (audios s3)[a := (audios s3 ! a)\<lparr>paused := False\<rparr>]\<rparr>
                           else s3)
                 in (s4, Some a))
          else (s\<lparr>generatingAudio := None\<rparr>, None))"

text \<open>
  After the \<^verbatim>\<open>play()\<close> promise settles. When it rejects, the pointer is cleared and
  playback is tried once more if an audio context could be resumed.
\<close>

datatype recovery = NoRetry | RetryStarted | RetryFailed

datatype play_result = PlayFulfilled | PlayRejected recovery

fun generateTTS_played :: "nat \<Rightarrow> play_result \<Rightarrow> chat \<Rightarrow> chat" where
  "generateTTS_played a PlayFulfilled s = s\<lparr>generatingAudio := None\<rparr>"
| "generateTTS_played a (PlayRejected RetryStarted) s =
     s\<lparr>playingAudio := None,
       audios := (audios s)[a := (audios s ! a)\<lparr>paused := False\<rparr>],
       generatingAudio := None\<rparr>"
| "generateTTS_played a (PlayRejected _) s = s\<lparr>playingAudio := None, generatingAudio := None\<rparr>"

text \<open>\<^verbatim>\<open>Date.now().toString()\<close>: the decimal digits of a count of milliseconds.\<close>

fun toString :: "nat \<Rightarrow> jstring" where
  "toString n =
     (if n < 10 then [of_nat (48 + n)]
      else toString (n div 10) @ [of_nat (48 + n mod 10)])"

declare toString.simps [simp del]

text \<open>
  The instruction chosen from \<^verbatim>\<open>responseLength[0]\<close>. On an empty array the value is
  \<^verbatim>\<open>undefined\<close>, both comparisons are false and the last branch is taken.
\<close>

definition lengthInstruction :: "int list \<Rightarrow> jstring" where
  "lengthInstruction rl =
     (case rl of
        [] \<Rightarrow> js ''Please provide a detailed, comprehensive response (6+ sentences). ''
      | lengthValue # _ \<Rightarrow>
          if lengthValue \<le> 3
          then js ''Please provide a short, concise response (1-2 sentences). ''
          else if lengthValue \<le> 7
          then js ''Please provide a medium-length response (3-5 sentences). ''
          else js ''Please provide a detailed, comprehensive response (6+ sentences). '')"

record generate_request =
  model :: jstring
  prompt :: jstring
  stream :: bool

text \<open>\<^verbatim>\<open>sendMessage\<close> up to \<^verbatim>\<open>await fetch('http://localhost:11434/api/generate', ...)\<close>.\<close>

definition sendMessage_call :: "chat \<Rightarrow> nat \<Rightarrow> chat \<Rightarrow> chat \<times> generate_request option" where
  "sendMessage_call r now s =
     (if trim (input r) = [] \<or> selectedModel r = [] then (s, None)
      else
        let userMessage = \<lparr>id_msg = toString now, role = User, content = input r\<rparr>;
            s1 = s\<lparr>messages := messages s @ [userMessage], input := [], loading := True\<rparr>;
            enhancedPrompt = lengthInstruction (responseLength r) @ input r
        in (s1, Some \<lparr>model = selectedModel r, prompt = enhancedPrompt, stream = False\<rparr>))"

text \<open>
  What the request to the model comes to: \<open>GenerateOK t\<close> when the body parses to an
  object whose \<^verbatim>\<open>response\<close> is the string \<open>t\<close>, as the model's interface promises;
  \<open>GenerateFailed\<close> when \<^verbatim>\<open>fetch\<close> or \<^verbatim>\<open>response.json()\<close> rejects.
\<close>

datatype generate_result = GenerateOK jstring | GenerateFailed

text \<open>
  \<^verbatim>\<open>sendMessage\<close> after the request. The second component is the call of
  \<^verbatim>\<open>generateTTS\<close> handed to \<^verbatim>\<open>setTimeout\<close>, which will run as a closure of \<open>r\<close>.
\<close>

definition sendMessage_fetched ::
  "chat \<Rightarrow> nat \<Rightarrow> generate_result \<Rightarrow> chat \<Rightarrow> chat \<times> (jstring \<times> jstring) option" where
  "sendMessage_fetched r now result s =
     (case result of
        GenerateOK t \<Rightarrow>
          let assistantMessage = \<lparr>id_msg = toString (now + 1), role = Assistant, content = t\<rparr>;
              s1 = s\<lparr>messages := messages s @ [assistantMessage]\<rparr>
          in (s1\<lparr>loading := False\<rparr>,
              if autoPlay r then Some (t, id_msg assistantMessage) else None)
      | GenerateFailed \<Rightarrow>
          let errorMessage =
                \<lparr>id_msg = toString (now + 1), role = Assistant,
                 content = js ''Error: Failed to get response from Ollama. Make sure Ollama is running.''\<rparr>;
              s1 = s\<lparr>messages := messages s @ [errorMessage]\<rparr>
          in (s1\<lparr>loading := False\<rparr>, None))"


text \<open>The audio elements that are playing, by address.\<close>

definition playing_elements :: "chat \<Rightarrow> nat list" where
  "playing_elements s = filter (\<lambda>a. \<not> paused (audios s ! a)) [0..<length (audios s)]"

section \<open>Concrete inputs\<close>

text \<open>The bytes of an ASCII text.\<close>

definition ascii :: "string \<Rightarrow> 8 word list" where
  "ascii s = map (\<lambda>c. of_nat (of_char c)) s"

text \<open>
  A stand-in for \<^verbatim>\<open>JSON.parse\<close>. It reads the empty object, the array
  \<^verbatim>\<open>[1e999]\<close> and a string literal without escapes as \<^verbatim>\<open>JSON.parse\<close> does, and
  rejects every other text; on the texts of the runs below that is the answer of
  \<^verbatim>\<open>JSON.parse\<close>.
\<close>

definition plain_char :: "16 word \<Rightarrow> bool" where
  "plain_char c \<longleftrightarrow> 0x20 \<le> c \<and> c \<noteq> 0x22 \<and> c \<noteq> 0x5C"

definition example_parse :: "jstring \<Rightarrow> json option" where
  "example_parse s =
     (if s = js ''{}'' then Some (JObject [])
      else if s = js ''[1e999]'' then Some (JArray [JNumber PosInfinity])
      else (case s of
              [] \<Rightarrow> None
            | q # r \<Rightarrow>
                if q = 0x22 \<and> r \<noteq> [] \<and> last r = 0x22 \<and> list_all plain_char (butlast r)
                then Some (JString (butlast r))
                else None))"

definition example_request :: "json option" where
  "example_request = Some (JObject [(js ''text'', JString (js ''hi''))])"

definition example_call :: spawn_call where
  "example_call = \<lparr>text_arg = Some (JString (js ''hi'')), voicePath_arg = JString []\<rparr>"

text \<open>
  A child that logs a line, warns on standard error and then prints \<^verbatim>\<open>{}\<close>, indented
  and followed by CR LF and an empty line.
\<close>

definition example_output :: "event list" where
  "example_output =
     [StdoutData (ascii ''loading'' @ [0x0A]), StderrData (ascii ''warn''),
      StdoutData (ascii ''  {}'' @ [0x0D, 0x0A, 0x0A])]"

text \<open>A child whose last line is not JSON, and one that prints only blank lines.\<close>

definition example_garbage :: "event list" where
  "example_garbage = [StdoutData (ascii ''{}'' @ [0x0A]), StdoutData (ascii ''done'' @ [0x0A])]"

definition example_blank :: "event list" where
  "example_blank = [StdoutData [0x20, 0x0A], StderrData (ascii ''warn''), StdoutData [0x0A]]"

text \<open>
  A child whose last line is \<^verbatim>\<open>{}\<close> after a no-break space (U+00A0, the bytes C2 A0):
  a line that \<^verbatim>\<open>JSON.parse\<close> rejects as it stands.
\<close>

definition example_nbsp :: "event list" where
  "example_nbsp =
     [StdoutData (ascii ''log'' @ [0x0A]), StdoutData ([0xC2, 0xA0] @ ascii ''{}'' @ [0x0A])]"



definition idA :: jstring where
  "idA = js ''1001''"

definition idB :: jstring where
  "idB = js ''1003''"

definition example_idle :: chat where
  "example_idle =
     \<lparr>messages = [\<lparr>id_msg = idA, role = Assistant, content = js ''Hello''\<rparr>,
                  \<lparr>id_msg = idB, role = Assistant, content = js ''World''\<rparr>],
      input = js ''Why?'', loading = False, selectedModel = js ''llama3'', selectedVoice = [],
      playingAudio = None, generatingAudio = None, autoPlay = False, responseLength = [5],
      audioRefs = Map.empty, audios = []\<rparr>"

text \<open>The route's answer carrying the base64 of the four bytes \<^verbatim>\<open>RIFF\<close>.\<close>

definition example_tts_ok :: json where
  "example_tts_ok = JObject [(js ''success'', JBool True), (js ''audio'', JString (js ''UklGRg==''))]"

definition example_atob :: "json option \<Rightarrow> jstring option" where
  "example_atob v = (if v = Some (JString (js ''UklGRg=='')) then Some (js ''RIFF'') else None)"

text \<open>
  Two overlapping generations: Play is clicked on message A and, while its request is in
  flight, on message B; nothing is playing at either click. Then A's request completes
  and A plays, then B's request completes. The result is the state when B's request
  completes and the state after \<^verbatim>\<open>generateTTS\<close> has started B.
\<close>

definition overlapping_generations :: "(chat \<times> chat) option" where
  "overlapping_generations =
     (case generateTTS_call example_idle (js ''Hello'') idA example_idle of
        (s1, Some taskA) \<Rightarrow>
          (case generateTTS_call s1 (js ''World'') idB s1 of
             (s2, Some taskB) \<Rightarrow>
               (case generateTTS_fetched example_atob taskA (Some example_tts_ok) True s2 of
                  (s3, Some a) \<Rightarrow>
                    let s4 = generateTTS_played a PlayFulfilled s3 in
                    (case generateTTS_fetched example_atob taskB (Some example_tts_ok) True s4 of
                       (s5, Some b) \<Rightarrow> Some (s4, s5)
                     | (s5, None) \<Rightarrow> None)
                | (s3, None) \<Rightarrow> None)
           | (s2, None) \<Rightarrow> None)
      | (s1, None) \<Rightarrow> None)"

text \<open>Message A has been played and stopped; message B is playing.\<close>

definition example_B_playing :: chat where
  "example_B_playing =
     example_idle\<lparr>playingAudio := Some idB,
                  audioRefs := [idA \<mapsto> 0, idB \<mapsto> 1],
                  audios := [\<lparr>src = [], paused = True, currentTime = 0\<rparr>,
                             \<lparr>src = [], paused = False, currentTime = 2\<rparr>]\<rparr>"


section \<open>The last line of standard output\<close>

lemma split_newline_nonempty: "split_newline s \<noteq> []"
  by (induction s) (auto split: list.splits)

lemma isWhiteSpace_newline: "isWhiteSpace 0x0A"
  by (simp add: isWhiteSpace_def)

lemma split_newline_snoc:
  "split_newline (s @ [c]) =
     (if c = 0x0A then split_newline s @ [[]]
      else butlast (split_newline s) @ [last (split_newline s) @ [c]])"
proof (induction s)
  case Nil
  then show ?case by simp
next
  case (Cons a s)
  obtain l ls where L: "split_newline s = l # ls"
    using split_newline_nonempty [of s] by (cases "split_newline s") auto
  show ?case
    using Cons L by (auto split: list.splits simp: butlast_append)
qed

lemma trim_snoc_ws: "isWhiteSpace c \<Longrightarrow> trim (s @ [c]) = trim s"
  by (simp add: trim_def)

lemma trim_Cons_ws:
  assumes "isWhiteSpace c"
  shows "trim (c # s) = trim s"
proof (cases "list_all isWhiteSpace s")
  case True
  then have "dropWhile isWhiteSpace (rev s) = []"
    by (simp add: list_all_iff)
  then show ?thesis using assms True
    by (simp add: trim_def dropWhile_append list_all_iff del: dropWhile_eq_Nil_conv)
next
  case False
  then show ?thesis using assms by (auto simp: trim_def dropWhile_append list_all_iff)
qed

lemma trim_snoc_nonws:
  "\<not> isWhiteSpace c \<Longrightarrow> trim (s @ [c]) = dropWhile isWhiteSpace (s @ [c])"
  by (simp add: trim_def)

text \<open>Whitespace in front of the output never changes what the last line trims to.\<close>

lemma trim_last_split_Cons_ws:
  assumes "isWhiteSpace c"
  shows "trim (last (split_newline (c # s))) = trim (last (split_newline s))"
proof -
  obtain l ls where L: "split_newline s = l # ls"
    using split_newline_nonempty [of s] by (cases "split_newline s") auto
  show ?thesis
    using assms L by (auto simp: trim_Cons_ws)
qed

lemma trim_last_split_dropWhile:
  "trim (last (split_newline (dropWhile isWhiteSpace s))) = trim (last (split_newline s))"
proof (induction s)
  case Nil
  then show ?case by simp
next
  case (Cons a s)
  show ?case
  proof (cases "isWhiteSpace a")
    case True
    then show ?thesis using Cons trim_last_split_Cons_ws [of a s] by simp
  next
    case False
    then show ?thesis by simp
  qed
qed

text \<open>
  Whitespace at the end of the output may lengthen the spec's line, but never changes
  what it trims to.
\<close>

lemma spec_final_snoc_ws:
  assumes "isWhiteSpace c"
  shows "map_option trim (spec_final_nonempty_line (s @ [c])) =
         map_option trim (spec_final_nonempty_line s)"
proof -
  obtain ys y where revL: "split_newline s = ys @ [y]"
    using split_newline_nonempty [of s] by (cases "split_newline s" rule: rev_cases) auto
  show ?thesis
  proof (cases "c = 0x0A")
    case True
    then show ?thesis
      by (simp add: spec_final_nonempty_line_def split_newline_snoc)
  next
    case False
    then show ?thesis
      using assms revL
      by (simp add: spec_final_nonempty_line_def split_newline_snoc trim_snoc_ws)
  qed
qed

lemma spec_final_snoc_nonws:
  assumes "\<not> isWhiteSpace c"
  shows "spec_final_nonempty_line (s @ [c]) = Some (last (split_newline (s @ [c])))"
proof -
  have "c \<noteq> 0x0A" using assms isWhiteSpace_newline by auto
  then show ?thesis
    using assms by (simp add: spec_final_nonempty_line_def split_newline_snoc)
qed

text \<open>
  The text the handler parses is the spec's final non-empty line without the whitespace
  around it, and the empty string when there is no such line.
\<close>

lemma last_line_refines_spec:
  "trim (last (split_newline (trim out))) =
     (case map_option trim (spec_final_nonempty_line out) of None \<Rightarrow> [] | Some l \<Rightarrow> l)"
proof (induction out rule: rev_induct)
  case Nil
  then show ?case by (simp add: trim_def spec_final_nonempty_line_def)
next
  case (snoc c s)
  show ?case
  proof (cases "isWhiteSpace c")
    case True
    then show ?thesis using snoc by (simp add: trim_snoc_ws spec_final_snoc_ws)
  next
    case False
    then show ?thesis
      by (simp add: trim_snoc_nonws spec_final_snoc_nonws trim_last_split_dropWhile)
  qed
qed

lemma error_response_eq:
  "error_response msg st = \<lparr>status = st, body = JObject [(js ''error'', JString (js msg))]\<rparr>"
  by (simp add: error_response_def NextResponse_json_def)

lemma parse_stdout_spec:
  "parse_stdout P out =
     (case P (case spec_final_nonempty_line out of None \<Rightarrow> [] | Some l \<Rightarrow> trim l) of
        None \<Rightarrow> error_response ''Invalid response from TTS service'' 500
      | Some result \<Rightarrow> NextResponse_json result 200)"
proof -
  have ne: "split_newline (trim out) \<noteq> []" by (rule split_newline_nonempty)
  then have nth: "split_newline (trim out) ! (length (split_newline (trim out)) - 1)
      = last (split_newline (trim out))"
    by (simp add: last_conv_nth)
  have line: "trim (last (split_newline (trim out))) =
      (case spec_final_nonempty_line out of None \<Rightarrow> [] | Some l \<Rightarrow> trim l)"
    by (cases "spec_final_nonempty_line out") (simp_all add: last_line_refines_spec)
  show ?thesis
    using ne nth by (simp add: parse_stdout_def Let_def line)
qed

lemma parse_stdout_blank:
  assumes "list_all isWhiteSpace out"
  shows "parse_stdout P out =
     (case P [] of
        None \<Rightarrow> error_response ''Invalid response from TTS service'' 500
      | Some result \<Rightarrow> NextResponse_json result 200)"
proof -
  have "\<forall>c\<in>set (rev out). isWhiteSpace c"
    using assms by (simp add: list_all_iff)
  then have "dropWhile isWhiteSpace (rev out) = []"
    by (simp only: dropWhile_eq_Nil_conv)
  then have t: "trim out = []" by (simp add: trim_def del: dropWhile_eq_Nil_conv)
  have t0: "trim [] = []" by (simp add: trim_def)
  show ?thesis by (simp add: parse_stdout_def t t0)
qed

section \<open>Runs of the child process\<close>

lemma data_events_accumulate:
  "list_all is_data evs \<Longrightarrow>
     stdout (foldl (handle_event P D) s evs) = stdout s @ stdout_of D evs
     \<and> resolved (foldl (handle_event P D) s evs) = resolved s"
proof (induction evs arbitrary: s)
  case Nil
  then show ?case by (simp add: stdout_of_def)
next
  case (Cons e evs)
  then show ?case by (cases e) (simp_all add: stdout_of_def)
qed

text \<open>Once the promise is settled, no later event changes the response.\<close>

lemma resolved_stable:
  "resolved s = Some r \<Longrightarrow> resolved (foldl (handle_event P D) s evs) = Some r"
proof (induction evs arbitrary: s)
  case Nil
  then show ?case by simp
next
  case (Cons e evs)
  have "resolved (handle_event P D s e) = Some r"
    using Cons.prems by (cases e) (simp_all add: on_close_def resolve_def)
  then show ?case using Cons.IH by simp
qed

lemma run_child_exit:
  assumes "list_all is_data evs"
  shows "resolved (run_child P D (evs @ Close code # rest)) =
     Some (if code \<noteq> Some 0 then error_response ''TTS generation failed'' 500
           else parse_stdout P (stdout_of D evs))"
proof -
  let ?s0 = "\<lparr>stdout = [], stderr = [], resolved = None\<rparr>"
  let ?s1 = "foldl (handle_event P D) ?s0 evs"
  have acc: "stdout ?s1 = stdout_of D evs" "resolved ?s1 = None"
    using data_events_accumulate [OF assms, of P D ?s0] by simp_all
  have "resolved (on_close P code ?s1) =
     Some (if code \<noteq> Some 0 then error_response ''TTS generation failed'' 500
           else parse_stdout P (stdout_of D evs))"
    using acc by (simp add: on_close_def resolve_def)
  then show ?thesis
    by (simp add: run_child_def resolved_stable)
qed

lemma POST_spawned:
  assumes "spawn_calls (POST P D rq spawn) = [call]"
  shows "outcome (POST P D rq spawn) =
     (case spawn call of
        SpawnThrows \<Rightarrow> Rejected
      | Child evs \<Rightarrow> (case resolved (run_child P D evs) of None \<Rightarrow> Pending | Some r \<Rightarrow> Resolved r))"
  using assms
  by (auto simp: POST_def Let_def split: option.splits json.splits spawn_result.splits if_splits)

text \<open>
  What the handler answers to a run that exits, in terms of the text it has read. It
  holds whether or not a chunk was cut inside a character.
\<close>

lemma POST_exit:
  assumes "spawn_calls (POST P D rq spawn) = [call]"
    and "spawn call = Child (evs @ Close code # rest)"
    and "list_all is_data evs"
  shows "outcome (POST P D rq spawn) =
     Resolved (if code \<noteq> Some 0 then error_response ''TTS generation failed'' 500
               else parse_stdout P (stdout_of D evs))"
  using POST_spawned [OF assms(1)] assms(2) run_child_exit [OF assms(3), of P D code rest]
  by simp

text \<open>
  The text the handler has read is the text the child wrote when the output came in one
  chunk, and when it is ASCII however it was cut.
\<close>

lemma single_chunk_text:
  "stdout_chunks evs = [d] \<Longrightarrow> stdout_of decode evs = stdout_text decode evs"
  by (simp add: stdout_of_def stdout_text_def)

lemma utf8_decode_ascii:
  "list_all (\<lambda>b. b < 0x80) bs \<Longrightarrow> utf8_decode bs = map (\<lambda>b. of_nat (unat b)) bs"
  by (induction bs) (simp_all add: utf8_decode.simps)

lemma ascii_output_text:
  assumes "list_all (\<lambda>b. b < 0x80) (concat (stdout_chunks evs))"
  shows "stdout_of utf8_decode evs = stdout_text utf8_decode evs"
proof -
  have each: "\<forall>d\<in>set (stdout_chunks evs). list_all (\<lambda>b. b < 0x80) d"
    using assms by (auto simp: list_all_iff)
  have "concat (map utf8_decode (stdout_chunks evs)) =
        concat (map (map (\<lambda>b. of_nat (unat b))) (stdout_chunks evs))"
    using each by (simp add: utf8_decode_ascii cong: map_cong)
  then show ?thesis
    using assms by (simp add: stdout_of_def stdout_text_def utf8_decode_ascii map_concat)
qed

lemma example_spawned:
  "spawn_calls (POST example_parse D example_request (\<lambda>_. Child evs)) = [example_call]"
  by (simp add: POST_def example_request_def example_call_def voicePath_def js_def Let_def)

lemma example_output_data: "list_all is_data example_output"
  by (simp add: example_output_def)

section \<open>Claims about the route\<close>

text \<open>
  In the theorems below a run of the child that exits is a list of events: output on
  the two streams (\<open>evs\<close>), then \<open>Close code\<close>, then anything (\<open>rest\<close>). The handler
  has spawned the child when \<open>spawn_calls\<close> holds its call.
\<close>




text \<open>
  Claim C2. When the child exits with a code other than 0 (or with none, killed by a
  signal), the handler answers with status 500 and the body
  \<^verbatim>\<open>{ error: "TTS generation failed" }\<close>, whatever the child wrote.
\<close>

theorem tts_nonzero_exit_fails:
  assumes "spawn_calls (POST JSON_parse decode request_json spawn) = [call]"
    and "spawn call = Child (evs @ Close code # rest)"
    and "list_all is_data evs"
    and "code \<noteq> Some 0"
  shows "outcome (POST JSON_parse decode request_json spawn) =
     Resolved \<lparr>status = 500,
               body = JObject [(js ''error'', JString (js ''TTS generation failed''))]\<rparr>"
  using POST_exit [OF assms(1-3)] assms(4) by (simp add: error_response_eq)

theorem tts_nonzero_exit_fails_witness:
  "spec_final_nonempty_line (stdout_of utf8_decode example_output) = Some (js ''  {}'' @ [0x0D])
   \<and> example_parse (trim (js ''  {}'' @ [0x0D])) = Some (JObject [])
   \<and> outcome (POST example_parse utf8_decode example_request
       (\<lambda>_. Child (example_output @ [Close (Some 1)])))
     = Resolved \<lparr>status = 500,
                 body = JObject [(js ''error'', JString (js ''TTS generation failed''))]\<rparr>
   \<and> outcome (POST example_parse utf8_decode example_request
       (\<lambda>_. Child (example_output @ [Close None])))
     = Resolved \<lparr>status = 500,
                 body = JObject [(js ''error'', JString (js ''TTS generation failed''))]\<rparr>"
proof -
  have l: "spec_final_nonempty_line (stdout_of utf8_decode example_output)
      = Some (js ''  {}'' @ [0x0D])"
    by (simp add: spec_final_nonempty_line_def stdout_of_def example_output_def ascii_def
        utf8_decode.simps js_def isWhiteSpace_def)
  have v: "example_parse (trim (js ''  {}'' @ [0x0D])) = Some (JObject [])"
    by (simp add: example_parse_def trim_def js_def isWhiteSpace_def)
  show ?thesis
    using l v
      tts_nonzero_exit_fails [OF example_spawned [where D = utf8_decode] _ example_output_data,
        of "example_output @ [Close (Some 1)]" "Some 1" "[]"]
      tts_nonzero_exit_fails [OF example_spawned [where D = utf8_decode] _ example_output_data,
        of "example_output @ [Close None]" None "[]"]
    by simp
qed

text \<open>
  Claim C3, as amended. When the child exits with code 0 and the final non-empty line
  of its standard output, without the whitespace around it, does not parse as JSON, the
  handler answers with status 500 and the body
  \<^verbatim>\<open>{ error: "Invalid response from TTS service" }\<close>. The standard output is the text
  the handler has read, \<open>stdout_of\<close>.
\<close>

theorem tts_unparsable_final_line:
  assumes "spawn_calls (POST JSON_parse decode request_json spawn) = [call]"
    and "spawn call = Child (evs @ Close (Some 0) # rest)"
    and "list_all is_data evs"
    and "spec_final_nonempty_line (stdout_of decode evs) = Some l"
    and "JSON_parse (trim l) = None"
  shows "outcome (POST JSON_parse decode request_json spawn) =
     Resolved \<lparr>status = 500,
               body = JObject [(js ''error'', JString (js ''Invalid response from TTS service''))]\<rparr>"
  using POST_exit [OF assms(1-3)] assms(4,5)
  by (simp add: parse_stdout_spec error_response_eq)

theorem tts_unparsable_final_line_witness:
  "list_all is_data example_garbage
   \<and> spec_final_nonempty_line (stdout_of utf8_decode example_garbage) = Some (js ''done'')
   \<and> example_parse (trim (js ''done'')) = None
   \<and> outcome (POST example_parse utf8_decode example_request
       (\<lambda>_. Child (example_garbage @ [Close (Some 0)])))
       = Resolved \<lparr>status = 500,
           body = JObject [(js ''error'', JString (js ''Invalid response from TTS service''))]\<rparr>"
proof -
  have d: "list_all is_data example_garbage"
    by (simp add: example_garbage_def)
  have l: "spec_final_nonempty_line (stdout_of utf8_decode example_garbage) = Some (js ''done'')"
    by (simp add: spec_final_nonempty_line_def stdout_of_def example_garbage_def ascii_def
        utf8_decode.simps js_def isWhiteSpace_def)
  have v: "example_parse (trim (js ''done'')) = None"
    by (simp add: example_parse_def plain_char_def trim_def js_def isWhiteSpace_def)
  show ?thesis
    using d l v
      tts_unparsable_final_line [OF example_spawned [where D = utf8_decode] _ d l v,
        of "example_garbage @ [Close (Some 0)]" "[]"]
    by simp
qed

text \<open>
  The claim as first stated fails when only whitespace that JSON does not allow
  surrounds the text: the final non-empty line \<^verbatim>\<open>{}\<close> after a no-break space is not
  valid JSON as it stands, and the handler, which trims it first, answers 200 with the
  empty object.
\<close>

theorem tts_trimmed_line_parses_counterexample:
  "stdout_of utf8_decode example_nbsp = stdout_text utf8_decode example_nbsp
   \<and> spec_final_nonempty_line (stdout_text utf8_decode example_nbsp) = Some (0xA0 # js ''{}'')
   \<and> example_parse (0xA0 # js ''{}'') = None
   \<and> outcome (POST example_parse utf8_decode example_request
       (\<lambda>_. Child (example_nbsp @ [Close (Some 0)])))
       = Resolved \<lparr>status = 200, body = JObject []\<rparr>"
proof -
  have d: "list_all is_data example_nbsp"
    by (simp add: example_nbsp_def)
  have out: "stdout_of utf8_decode example_nbsp = [0x6C, 0x6F, 0x67, 0x0A, 0xA0, 0x7B, 0x7D, 0x0A]"
    "stdout_text utf8_decode example_nbsp = [0x6C, 0x6F, 0x67, 0x0A, 0xA0, 0x7B, 0x7D, 0x0A]"
    by (simp_all add: example_nbsp_def stdout_of_def stdout_text_def ascii_def
        utf8_decode.simps continuation_def)
  have l: "spec_final_nonempty_line [0x6C, 0x6F, 0x67, 0x0A, 0xA0, 0x7B, 0x7D, 0x0A]
      = Some (0xA0 # js ''{}'')"
    by (simp add: spec_final_nonempty_line_def js_def isWhiteSpace_def)
  have p: "example_parse (0xA0 # js ''{}'') = None"
    "example_parse (trim (0xA0 # js ''{}'')) = Some (JObject [])"
    by (simp_all add: example_parse_def plain_char_def trim_def js_def isWhiteSpace_def)
  have "outcome (POST example_parse utf8_decode example_request
       (\<lambda>_. Child (example_nbsp @ [Close (Some 0)])))
       = Resolved \<lparr>status = 200, body = JObject []\<rparr>"
    using POST_exit [OF example_spawned [where D = utf8_decode] _ d, of "example_nbsp @ [Close (Some 0)]" "Some 0" "[]"]
    by (simp add: parse_stdout_spec out l p NextResponse_json_def)
  then show ?thesis
    by (simp add: out l p)
qed

text \<open>
  Claim C4, as amended. When the parsed body of the request is not \<^verbatim>\<open>null\<close> and its
  \<^verbatim>\<open>text\<close> is missing, not a string, or the empty string, the handler answers with
  status 400 and the body \<^verbatim>\<open>{ error: "Text is required" }\<close> and spawns no child.
\<close>

theorem tts_text_required:
  assumes "b \<noteq> JNull"
    and "typeof (get_property b (js ''text'')) \<noteq> ''string''
         \<or> get_property b (js ''text'') = Some (JString [])"
  shows "POST JSON_parse decode (Some b) spawn =
     \<lparr>outcome = Resolved \<lparr>status = 400,
                  body = JObject [(js ''error'', JString (js ''Text is required''))]\<rparr>,
      spawn_calls = []\<rparr>"
proof -
  have "\<not> truthy (get_property b (js ''text''))
        \<or> typeof (get_property b (js ''text'')) \<noteq> ''string''"
    using assms(2) by auto
  then show ?thesis
    using assms(1) by (cases b) (simp_all add: POST_def Let_def error_response_eq)
qed

theorem tts_text_required_witness:
  "POST example_parse utf8_decode (Some (JObject [(js ''voice'', JString (js ''default''))]))
       (\<lambda>_. Child (example_output @ [Close (Some 0)])) =
     \<lparr>outcome = Resolved \<lparr>status = 400,
                  body = JObject [(js ''error'', JString (js ''Text is required''))]\<rparr>,
      spawn_calls = []\<rparr>
   \<and> POST example_parse utf8_decode (Some (JObject [(js ''text'', JString [])]))
       (\<lambda>_. Child (example_output @ [Close (Some 0)])) =
     \<lparr>outcome = Resolved \<lparr>status = 400,
                  body = JObject [(js ''error'', JString (js ''Text is required''))]\<rparr>,
      spawn_calls = []\<rparr>
   \<and> POST example_parse utf8_decode (Some (JObject [(js ''text'', JNumber (Finite 7))]))
       (\<lambda>_. Child (example_output @ [Close (Some 0)])) =
     \<lparr>outcome = Resolved \<lparr>status = 400,
                  body = JObject [(js ''error'', JString (js ''Text is required''))]\<rparr>,
      spawn_calls = []\<rparr>"
proof -
  have missing: "typeof (get_property (JObject [(js ''voice'', JString (js ''default''))]) (js ''text''))
      \<noteq> ''string''"
    by (simp add: js_def)
  have empty: "get_property (JObject [(js ''text'', JString [])]) (js ''text'') = Some (JString [])"
    by simp
  have number: "typeof (get_property (JObject [(js ''text'', JNumber (Finite 7))]) (js ''text''))
      \<noteq> ''string''"
    by simp
  show ?thesis
    using
      tts_text_required [OF _ disjI1 [OF missing], of example_parse utf8_decode
        "\<lambda>_. Child (example_output @ [Close (Some 0)])"]
      tts_text_required [OF _ disjI2 [OF empty], of example_parse utf8_decode
        "\<lambda>_. Child (example_output @ [Close (Some 0)])"]
      tts_text_required [OF _ disjI1 [OF number], of example_parse utf8_decode
        "\<lambda>_. Child (example_output @ [Close (Some 0)])"]
    by simp
qed

text \<open>
  The claim as first stated fails on the body \<^verbatim>\<open>null\<close>: it has no \<^verbatim>\<open>text\<close>, the
  destructuring throws before the check is reached, and the handler answers 500 with
  \<^verbatim>\<open>{ error: "Internal server error" }\<close> instead of 400.
\<close>

theorem tts_null_body_counterexample:
  "outcome (POST example_parse utf8_decode (Some JNull)
       (\<lambda>_. Child (example_output @ [Close (Some 0)]))) =
     Resolved \<lparr>status = 500,
               body = JObject [(js ''error'', JString (js ''Internal server error''))]\<rparr>
   \<and> outcome (POST example_parse utf8_decode (Some JNull)
       (\<lambda>_. Child (example_output @ [Close (Some 0)]))) \<noteq>
     Resolved \<lparr>status = 400,
               body = JObject [(js ''error'', JString (js ''Text is required''))]\<rparr>"
  by (simp add: POST_def error_response_eq)

text \<open>
  Claim C9. When reading the body of the request as JSON throws, the handler answers
  with status 500 and the body \<^verbatim>\<open>{ error: "Internal server error" }\<close>, not with the
  400 of the check on \<^verbatim>\<open>text\<close>; no child is spawned.
\<close>

theorem tts_invalid_body:
  "POST JSON_parse decode None spawn =
     \<lparr>outcome = Resolved \<lparr>status = 500,
                  body = JObject [(js ''error'', JString (js ''Internal server error''))]\<rparr>,
      spawn_calls = []\<rparr>"
  by (simp add: POST_def error_response_eq)

theorem tts_invalid_body_witness:
  "POST example_parse utf8_decode None (\<lambda>_. Child (example_output @ [Close (Some 0)])) =
     \<lparr>outcome = Resolved \<lparr>status = 500,
                  body = JObject [(js ''error'', JString (js ''Internal server error''))]\<rparr>,
      spawn_calls = []\<rparr>"
  using tts_invalid_body [of example_parse utf8_decode
      "\<lambda>_. Child (example_output @ [Close (Some 0)])"]
  by simp

text \<open>
  Claim C10. When the child exits with code 0 and its standard output is empty or holds
  only whitespace, the handler parses the empty string, which \<^verbatim>\<open>JSON.parse\<close>
  rejects, and answers with status 500 and the body
  \<^verbatim>\<open>{ error: "Invalid response from TTS service" }\<close>.
\<close>

theorem tts_blank_stdout:
  assumes "spawn_calls (POST JSON_parse decode request_json spawn) = [call]"
    and "spawn call = Child (evs @ Close (Some 0) # rest)"
    and "list_all is_data evs"
    and "list_all isWhiteSpace (stdout_of decode evs)"
    and "JSON_parse [] = None"
  shows "outcome (POST JSON_parse decode request_json spawn) =
     Resolved \<lparr>status = 500,
               body = JObject [(js ''error'', JString (js ''Invalid response from TTS service''))]\<rparr>"
  using POST_exit [OF assms(1-3)] assms(5)
  by (simp add: parse_stdout_blank [OF assms(4)] error_response_eq)

theorem tts_blank_stdout_witness:
  "list_all is_data example_blank
   \<and> list_all isWhiteSpace (stdout_of utf8_decode example_blank)
   \<and> example_parse [] = None
   \<and> outcome (POST example_parse utf8_decode example_request
       (\<lambda>_. Child (example_blank @ [Close (Some 0)])))
       = Resolved \<lparr>status = 500,
           body = JObject [(js ''error'', JString (js ''Invalid response from TTS service''))]\<rparr>"
proof -
  have d: "list_all is_data example_blank"
    by (simp add: example_blank_def)
  have w: "list_all isWhiteSpace (stdout_of utf8_decode example_blank)"
    by (simp add: stdout_of_def example_blank_def utf8_decode.simps isWhiteSpace_def)
  have v: "example_parse [] = None"
    by (simp add: example_parse_def js_def)
  show ?thesis
    using d w v
      tts_blank_stdout [OF example_spawned [where D = utf8_decode] _ d w v, of "example_blank @ [Close (Some 0)]" "[]"]
    by simp
qed

section \<open>Claims about the chat component\<close>

lemma idA_neq_idB: "idA \<noteq> idB"
  by (simp add: idA_def idB_def js_def)

text \<open>
  What \<^verbatim>\<open>generateTTS\<close> does get right: the message its render saw playing, when it is
  another message with a registered element, is paused and rewound, and the pointer
  ends on the new message.
\<close>

lemma generateTTS_stops_seen:
  assumes "seen_playingAudio task = Some p" and "p \<noteq> []" and "p \<noteq> messageId task"
    and "audioRefs s p = Some a" and "a < length (audios s)"
    and "fetched = Some (JObject kvs)"
    and "truthy (map_of kvs (js ''success''))" and "truthy (map_of kvs (js ''audio''))"
    and "atob (map_of kvs (js ''audio'')) = Some bytes"
  shows "case generateTTS_fetched atob task fetched allowed s of
           (s', awaited) \<Rightarrow>
             paused (audios s' ! a) \<and> currentTime (audios s' ! a) = 0
             \<and> playingAudio s' = Some (messageId task)
             \<and> awaited = Some (length (audios s))"
  using assms
  by (simp add: generateTTS_fetched_def stopTTS_def Let_def nth_append)

text \<open>
  Claim C5. It fails on the code. The message \<^verbatim>\<open>generateTTS\<close> stops is the one that
  was playing in the render that called it, read before the request to the route; by
  the time the request completes another message may have started. In
  \<open>overlapping_generations\<close> message A is playing (pointer on A, its element not
  paused) when \<^verbatim>\<open>generateTTS\<close> starts message B, and afterwards the pointer is on B
  while the elements of A and of B are both playing: A was neither paused nor rewound.
\<close>

theorem overlapping_generations_both_play:
  "(case overlapping_generations of
      None \<Rightarrow> False
    | Some (before, after) \<Rightarrow>
        playingAudio before = Some idA \<and> audioRefs before idA = Some 0
        \<and> playing_elements before = [0]
        \<and> playingAudio after = Some idB
        \<and> audioRefs after idA = Some 0 \<and> audioRefs after idB = Some 1
        \<and> playing_elements after = [0, 1])"
  by (simp add: overlapping_generations_def generateTTS_call_def generateTTS_fetched_def
      example_idle_def example_tts_ok_def example_atob_def idA_def idB_def
      playing_elements_def trim_def isWhiteSpace_def Let_def js_def)

text \<open>
  Claim C6. For a response length from 1 to 10, the prompt \<^verbatim>\<open>sendMessage\<close> sends is one
  instruction followed by the input as typed: the short one for 1, 2, 3, the medium one
  for 4 to 7, the long one for 8, 9, 10.
\<close>

theorem sendMessage_prompt:
  assumes "sendMessage_call r now s = (s', Some request)"
    and "responseLength r = v # vs" and "1 \<le> v" and "v \<le> 10"
  shows "prompt request =
     (if v \<in> {1, 2, 3} then js ''Please provide a short, concise response (1-2 sentences). ''
      else if v \<in> {4, 5, 6, 7} then js ''Please provide a medium-length response (3-5 sentences). ''
      else js ''Please provide a detailed, comprehensive response (6+ sentences). '')
     @ input r"
proof -
  have p: "prompt request = lengthInstruction (responseLength r) @ input r"
    using assms(1) by (auto simp: sendMessage_call_def Let_def split: if_splits)
  have short: "v \<in> {1, 2, 3} \<longleftrightarrow> v \<le> 3"
    using assms(3) by simp arith
  have medium: "v \<in> {4, 5, 6, 7} \<longleftrightarrow> 3 < v \<and> v \<le> 7"
    by simp arith
  show ?thesis
    unfolding p assms(2) short medium by (simp add: lengthInstruction_def)
qed

lemma example_sent:
  "sendMessage_call (example_idle\<lparr>responseLength := rl\<rparr>) 1001 example_idle =
     (example_idle\<lparr>messages := messages example_idle @
                      [\<lparr>id_msg = js ''1001'', role = User, content = js ''Why?''\<rparr>],
                   input := [], loading := True\<rparr>,
      Some \<lparr>model = js ''llama3'', prompt = lengthInstruction rl @ js ''Why?'', stream = False\<rparr>)"
  by (simp add: sendMessage_call_def example_idle_def toString.simps trim_def isWhiteSpace_def
      js_def Let_def)

theorem sendMessage_prompt_witness:
  "snd (sendMessage_call (example_idle\<lparr>responseLength := [3]\<rparr>) 1001 example_idle) =
     Some \<lparr>model = js ''llama3'', prompt = lengthInstruction [3] @ js ''Why?'', stream = False\<rparr>
   \<and> prompt \<lparr>model = js ''llama3'', prompt = lengthInstruction [3] @ js ''Why?'', stream = False\<rparr>
     = js ''Please provide a short, concise response (1-2 sentences). '' @ js ''Why?''
   \<and> prompt \<lparr>model = js ''llama3'', prompt = lengthInstruction [4] @ js ''Why?'', stream = False\<rparr>
     = js ''Please provide a medium-length response (3-5 sentences). '' @ js ''Why?''
   \<and> prompt \<lparr>model = js ''llama3'', prompt = lengthInstruction [7] @ js ''Why?'', stream = False\<rparr>
     = js ''Please provide a medium-length response (3-5 sentences). '' @ js ''Why?''
   \<and> prompt \<lparr>model = js ''llama3'', prompt = lengthInstruction [8] @ js ''Why?'', stream = False\<rparr>
     = js ''Please provide a detailed, comprehensive response (6+ sentences). '' @ js ''Why?''"
proof -
  have i: "input (example_idle\<lparr>responseLength := rl\<rparr>) = js ''Why?''" for rl
    by (simp add: example_idle_def)
  show ?thesis
    using
      example_sent [of "[3]"]
      sendMessage_prompt [OF example_sent, of "[3]" 3 "[]"]
      sendMessage_prompt [OF example_sent, of "[4]" 4 "[]"]
      sendMessage_prompt [OF example_sent, of "[7]" 7 "[]"]
      sendMessage_prompt [OF example_sent, of "[8]" 8 "[]"]
    by (simp add: i)
qed

lemma sendMessage_fetched_failed:
  "sendMessage_fetched r now GenerateFailed s =
     (s\<lparr>messages := messages s @
          [\<lparr>id_msg = toString (now + 1), role = Assistant,
            content = js ''Error: Failed to get response from Ollama. Make sure Ollama is running.''\<rparr>],
        loading := False\<rparr>, None)"
  by (simp add: sendMessage_fetched_def)

text \<open>
  Claim C7. When the request to the model fails, a call of \<^verbatim>\<open>sendMessage\<close> leaves the
  conversation with the user's message and exactly one new assistant message, whose
  content is the fixed error text, and \<^verbatim>\<open>loading\<close> is false when the call is done;
  no speech is scheduled.
\<close>

theorem sendMessage_network_failure:
  assumes "sendMessage_call r now s = (s1, Some request)"
    and "sendMessage_fetched r now' GenerateFailed s1 = (s2, timer)"
  shows "messages s2 = messages s @
           [\<lparr>id_msg = toString now, role = User, content = input r\<rparr>,
            \<lparr>id_msg = toString (now' + 1), role = Assistant,
             content = js ''Error: Failed to get response from Ollama. Make sure Ollama is running.''\<rparr>]
         \<and> loading s2 = False \<and> timer = None"
proof -
  have "messages s1 = messages s @ [\<lparr>id_msg = toString now, role = User, content = input r\<rparr>]"
    using assms(1) by (auto simp: sendMessage_call_def Let_def split: if_splits)
  then show ?thesis
    using assms(2) by (auto simp: sendMessage_fetched_failed)
qed

theorem sendMessage_network_failure_witness:
  "snd (sendMessage_call example_idle 1001 example_idle) =
     Some \<lparr>model = js ''llama3'', prompt = lengthInstruction [5] @ js ''Why?'', stream = False\<rparr>
   \<and> messages (fst (sendMessage_fetched example_idle 1002 GenerateFailed
       (fst (sendMessage_call example_idle 1001 example_idle)))) =
     messages example_idle @
       [\<lparr>id_msg = js ''1001'', role = User, content = js ''Why?''\<rparr>,
        \<lparr>id_msg = js ''1003'', role = Assistant,
         content = js ''Error: Failed to get response from Ollama. Make sure Ollama is running.''\<rparr>]
   \<and> loading (fst (sendMessage_fetched example_idle 1002 GenerateFailed
       (fst (sendMessage_call example_idle 1001 example_idle)))) = False"
proof -
  have c: "sendMessage_call example_idle 1001 example_idle =
      (fst (sendMessage_call example_idle 1001 example_idle),
       Some \<lparr>model = js ''llama3'', prompt = lengthInstruction [5] @ js ''Why?'', stream = False\<rparr>)"
    using example_sent [of "[5]"] by (simp add: example_idle_def)
  have t: "toString 1001 = js ''1001''" "toString 1003 = js ''1003''"
    by (simp_all add: toString.simps js_def)
  have sc: "snd (sendMessage_call example_idle 1001 example_idle) =
      Some \<lparr>model = js ''llama3'', prompt = lengthInstruction [5] @ js ''Why?'', stream = False\<rparr>"
    using example_sent [of "[5]"] by (simp add: example_idle_def)
  have i: "input example_idle = js ''Why?''"
    by (simp add: example_idle_def)
  show ?thesis
    using sc sendMessage_network_failure [OF c surjective_pairing, where now' = 1002]
    by (simp add: t i)
qed

text \<open>
  Claim C8, as amended. \<^verbatim>\<open>stopTTS(id)\<close> changes nothing when no audio element is
  registered for \<open>id\<close>. When one is, it pauses and rewinds that element and clears the
  pointer, whatever message the pointer was on; the other elements, the registry, the
  generating marker and the conversation are untouched.
\<close>

theorem stopTTS_effect:
  "(audioRefs s mid = None \<longrightarrow> stopTTS mid s = s)
   \<and> (audioRefs s mid = Some a \<and> a < length (audios s) \<longrightarrow>
        paused (audios (stopTTS mid s) ! a)
        \<and> currentTime (audios (stopTTS mid s) ! a) = 0
        \<and> playingAudio (stopTTS mid s) = None
        \<and> length (audios (stopTTS mid s)) = length (audios s)
        \<and> (\<forall>b. b \<noteq> a \<longrightarrow> audios (stopTTS mid s) ! b = audios s ! b)
        \<and> audioRefs (stopTTS mid s) = audioRefs s
        \<and> generatingAudio (stopTTS mid s) = generatingAudio s
        \<and> messages (stopTTS mid s) = messages s)"
  by (simp add: stopTTS_def)

theorem stopTTS_effect_witness:
  "audioRefs example_B_playing (js ''9999'') = None
   \<and> stopTTS (js ''9999'') example_B_playing = example_B_playing
   \<and> audioRefs example_B_playing idB = Some 1
   \<and> 1 < length (audios example_B_playing)
   \<and> \<not> paused (audios example_B_playing ! 1)
   \<and> paused (audios (stopTTS idB example_B_playing) ! 1)
   \<and> currentTime (audios (stopTTS idB example_B_playing) ! 1) = 0
   \<and> playingAudio (stopTTS idB example_B_playing) = None"
proof -
  have n: "audioRefs example_B_playing (js ''9999'') = None"
    by (simp add: example_B_playing_def example_idle_def idA_def idB_def js_def)
  have b: "audioRefs example_B_playing idB = Some 1 \<and> 1 < length (audios example_B_playing)"
    by (simp add: example_B_playing_def example_idle_def)
  have p: "\<not> paused (audios example_B_playing ! 1)"
    by (simp add: example_B_playing_def example_idle_def)
  show ?thesis
    using n b p
      stopTTS_effect [of example_B_playing "js ''9999''" 0]
      stopTTS_effect [of example_B_playing idB 1]
    by simp
qed

text \<open>
  The claim as first stated fails when the pointer is on another message: with B
  playing, \<^verbatim>\<open>stopTTS\<close> of A, which has an element, clears the pointer all the same.
\<close>

theorem stopTTS_clears_other_pointer_counterexample:
  "playingAudio example_B_playing = Some idB
   \<and> idA \<noteq> idB
   \<and> audioRefs example_B_playing idA = Some 0
   \<and> playingAudio (stopTTS idA example_B_playing) = None"
  by (simp add: stopTTS_def example_B_playing_def example_idle_def idA_neq_idB)

end
